theory Spec2Isabelle
  imports Complex_Main "HOL-Library.Sublist" "HOL-Library.Multiset" "HOL-Library.Word"
begin

section \<open>Python values used by \<open>services/image_gen.py\<close>\<close>

text \<open>
  A Python \<open>str\<close> is a sequence of Unicode code points, so it is modelled as a list of
  natural numbers (one per code point); \<open>len\<close>, slicing and iteration then count what
  Python counts. \<open>lit\<close> turns an ASCII literal of the source into such a list.
  \<open>bytes\<close> are lists of 8-bit words.
\<close>

type_synonym str = "nat list"
type_synonym bytes = "8 word list"

definition lit :: "string \<Rightarrow> str" where
  "lit s = map of_char s"

text \<open>
  \<open>str.isspace\<close> for one code point: the code points CPython's
  \<open>_PyUnicode_IsWhitespace\<close> accepts. \<open>str.strip()\<close> and \<open>str.split()\<close> (no arguments)
  use the same test.
\<close>

definition py_isspace :: "nat \<Rightarrow> bool" where
  "py_isspace c \<longleftrightarrow>
     (9 \<le> c \<and> c \<le> 13) \<or> (28 \<le> c \<and> c \<le> 32) \<or> c = 133 \<or> c = 160 \<or> c = 5760 \<or>
     (8192 \<le> c \<and> c \<le> 8202) \<or> c = 8232 \<or> c = 8233 \<or> c = 8239 \<or> c = 8287 \<or> c = 12288"

text \<open>\<open>s.strip()\<close>: leading and trailing whitespace removed.\<close>

definition py_strip :: "str \<Rightarrow> str" where
  "py_strip s = rev (dropWhile py_isspace (rev (dropWhile py_isspace s)))"

text \<open>
  \<open>s.split()\<close>: the maximal runs of non-whitespace code points, in order. \<open>split_from cur s\<close>
  scans \<open>s\<close> with the token read so far in \<open>cur\<close>; a whitespace code point closes a
  non-empty token and is dropped.
\<close>

fun split_from :: "str \<Rightarrow> str \<Rightarrow> str list" where
  "split_from cur [] = (if cur = [] then [] else [cur])"
| "split_from cur (c # cs) =
     (if py_isspace c then (if cur = [] then split_from [] cs else cur # split_from [] cs)
      else split_from (cur @ [c]) cs)"

definition py_split :: "str \<Rightarrow> str list" where
  "py_split s = split_from [] s"

text \<open>\<open>sep.join(ws)\<close>.\<close>

fun py_join :: "str \<Rightarrow> str list \<Rightarrow> str" where
  "py_join sep [] = []"
| "py_join sep [w] = w"
| "py_join sep (w # ws) = w @ sep @ py_join sep ws"

section \<open>Headline derivation (\<open>generate_post_image\<close>, lines 72--79)\<close>

text \<open>
  \<^verbatim>\<open>
    headline = ""
    if hero_copy and hero_copy.strip():
        words = hero_copy.strip().split()[:10]
        headline = " ".join(words)
    if not headline:
        headline = " ".join(topic.strip().split()[:8])
  \<close>
  \<open>hero_copy\<close> is \<open>Optional[str]\<close>: \<open>None\<close> and the empty string are both falsy.
\<close>

definition derive_headline :: "str option \<Rightarrow> str \<Rightarrow> str" where
  "derive_headline hero_copy topic =
     (let headline =
        (case hero_copy of
           None \<Rightarrow> []
         | Some h \<Rightarrow>
             if h \<noteq> [] \<and> py_strip h \<noteq> []
             then py_join (lit '' '') (take 10 (py_split (py_strip h)))
             else [])
      in if headline = [] then py_join (lit '' '') (take 8 (py_split (py_strip topic)))
         else headline)"

section \<open>Configuration (\<open>config.py\<close>) and the outside world\<close>

text \<open>
  An exception is represented by the text \<open>str(e)\<close> gives for it: the only thing the
  pipeline ever does with a caught exception. Only subclasses of \<open>Exception\<close> are
  modelled.
\<close>

datatype exn = Exc (exc_str: str)

text \<open>
  A \<open>pathlib.Path\<close> is its sequence of components (\<open>Path.parts\<close>). \<open>p / name\<close> appends
  one component; that is what pathlib does when \<open>name\<close> is a relative name without a
  separator, which is the only way the source uses it.
\<close>

type_synonym path = "str list"

definition path_div :: "path \<Rightarrow> str \<Rightarrow> path" where
  "path_div p name = p @ [name]"

text \<open>A decoded PIL image: an opaque handle.\<close>

datatype image = Image nat

text \<open>An attribute probed with \<open>hasattr\<close>: missing, or present with a value.\<close>

datatype 'a attr = Missing | Has 'a

text \<open>
  The duck-typed response of the remote service, as far as the source inspects it.
  An inline payload is \<open>bytes\<close> or text; a blob has the optional attributes \<open>data\<close> and
  \<open>image_bytes\<close> (\<open>None\<close>: missing or \<open>None\<close>, which \<open>getattr(blob, _, None)\<close> does not
  tell apart); a part may have an \<open>as_image\<close> method (whose call raises or returns an
  image) and an \<open>inline_data\<close> attribute (\<open>None\<close>: missing or falsy). A parts attribute
  holds a list or \<open>None\<close>.
\<close>

datatype payload = PyBytes bytes | PyStr str

record blob =
  blob_data :: "payload option"
  blob_image_bytes :: "payload option"

record part =
  part_as_image :: "(exn + image) option"
  part_inline_data :: "blob option"

datatype content = Content (content_parts: "part list option attr")

datatype candidate = Candidate (cand_content: "content option attr")

record response =
  resp_parts :: "part list option attr"
  resp_candidates :: "candidate list option attr"

text \<open>The request handed to \<open>client.models.generate_content\<close> (lines 102--120).\<close>

datatype content_item = Text str | Picture image

record request =
  req_api_key :: str
  req_model :: str
  req_contents :: "content_item list"
  req_response_modalities :: "str list"
  req_aspect_ratio :: str
  req_image_size :: str

text \<open>
  A directory entry as \<open>iterdir\<close> yields it: its name, what \<open>stat().st_mtime\<close> gives
  (a finite float, so a rational number) and what \<open>Image.open(f).convert("RGB")\<close> gives.
\<close>

record dir_entry =
  entry_name :: str
  entry_mtime :: "exn + rat"
  entry_image :: "exn + image"

text \<open>
  Everything the module reads from outside itself: the environment after
  \<open>load_dotenv()\<close>, the install location, the outcome of each file-system, import,
  codec and remote operation, the clock, and the two Unicode tables of the interpreter
  that the source consults for code points beyond ASCII. \<open>unix_time\<close> is the value of
  \<open>int(time.time())\<close>.
\<close>

record world =
  getenv :: "str \<Rightarrow> str option"
  BASE_DIR :: path
  unicode_isalnum :: "nat \<Rightarrow> bool"
  unicode_lower :: "nat \<Rightarrow> str"
  mkdir :: "path \<Rightarrow> exn option"
  path_exists :: "path \<Rightarrow> exn + bool"
  pil_installed :: bool
  genai_installed :: bool
  iterdir :: "path \<Rightarrow> exn + dir_entry list"
  generate_content :: "request \<Rightarrow> exn + response"
  png_encode :: "image \<Rightarrow> exn + bytes"
  b64decode :: "str \<Rightarrow> exn + bytes"
  image_open_bytes :: "bytes \<Rightarrow> exn + image"
  image_save :: "path \<Rightarrow> image \<Rightarrow> exn option"
  unix_time :: int

text \<open>The operations on the outside world that a call performs, in order.\<close>

datatype io_event =
    MkDir path
  | PathExists path
  | ImportModule str
  | IterDir path
  | Stat path
  | ImageOpen path
  | GenerateContent request
  | TimeTime
  | ImageSave path

text \<open>A call either returns a value or raises.\<close>

datatype 'a outcome = Returned 'a | Raised exn

subsection \<open>\<open>config.py\<close>\<close>

definition DATA_DIR :: "world \<Rightarrow> path" where
  "DATA_DIR w = path_div (BASE_DIR w) (lit ''data'')"

definition OUTPUT_DIR :: "world \<Rightarrow> path" where
  "OUTPUT_DIR w = path_div (BASE_DIR w) (lit ''output'')"

definition IMAGES_DIR :: "world \<Rightarrow> path" where
  "IMAGES_DIR w = path_div (BASE_DIR w) (lit ''images'')"

text \<open>\<open>os.getenv(name, default)\<close>.\<close>

definition os_getenv :: "world \<Rightarrow> str \<Rightarrow> str \<Rightarrow> str" where
  "os_getenv w name dflt = (case getenv w name of None \<Rightarrow> dflt | Some v \<Rightarrow> v)"

definition GEMINI_API_KEY :: "world \<Rightarrow> str" where
  "GEMINI_API_KEY w = py_strip (os_getenv w (lit ''GEMINI_API_KEY'') [])"

definition GEMINI_IMAGE_MODEL :: "world \<Rightarrow> str" where
  "GEMINI_IMAGE_MODEL w = os_getenv w (lit ''GEMINI_IMAGE_MODEL'') (lit ''gemini-3-pro-image-preview'')"

text \<open>
  \<^verbatim>\<open>
    def ensure_dirs():
        DATA_DIR.mkdir(parents=True, exist_ok=True)
        OUTPUT_DIR.mkdir(parents=True, exist_ok=True)
  \<close>
\<close>

definition ensure_dirs :: "world \<Rightarrow> io_event list \<times> exn option" where
  "ensure_dirs w =
     (case mkdir w (DATA_DIR w) of
        Some e \<Rightarrow> ([MkDir (DATA_DIR w)], Some e)
      | None \<Rightarrow> ([MkDir (DATA_DIR w), MkDir (OUTPUT_DIR w)], mkdir w (OUTPUT_DIR w)))"

section \<open>Reference images (\<open>_load_reference_images\<close>, lines 30--51)\<close>

text \<open>
  \<open>str.lower()\<close>: ASCII capitals are shifted, other ASCII is kept, anything else is looked
  up in the interpreter's table.
\<close>

definition py_lower :: "world \<Rightarrow> str \<Rightarrow> str" where
  "py_lower w s =
     concat (map (\<lambda>c. if 65 \<le> c \<and> c \<le> 90 then [c + 32]
                        else if c < 128 then [c] else unicode_lower w c) s)"

text \<open>\<open>s.rfind(c)\<close>: the index of the last occurrence of \<open>c\<close>, if any.\<close>

definition rfind :: "str \<Rightarrow> nat \<Rightarrow> nat option" where
  "rfind s c = (case dropWhile (\<lambda>x. x \<noteq> c) (rev s) of [] \<Rightarrow> None | _ # front \<Rightarrow> Some (length front))"

text \<open>
  \<open>Path.suffix\<close> of a file name: from the last dot on, when that dot is neither the first
  nor the last character of the name; empty otherwise. (Python versions differ on names
  that begin or end with dots; none of them has a supported suffix then.)
\<close>

definition path_suffix :: "str \<Rightarrow> str" where
  "path_suffix name =
     (case rfind name 46 of
        None \<Rightarrow> []
      | Some i \<Rightarrow> if 0 < i \<and> i < length name - 1 then drop i name else [])"

definition supported :: "str list" where
  "supported = [lit ''.jpg'', lit ''.jpeg'', lit ''.png'', lit ''.webp'']"

text \<open>The filter of line 40: \<open>f.suffix.lower() in supported\<close>.\<close>

definition supported_file :: "world \<Rightarrow> dir_entry \<Rightarrow> bool" where
  "supported_file w f \<longleftrightarrow> py_lower w (path_suffix (entry_name f)) \<in> set supported"

text \<open>
  \<open>sorted(files, key=lambda x: x.stat().st_mtime, reverse=True)\<close> first computes the key
  of every file, in list order; the first \<open>stat\<close> that raises ends the call.
\<close>

fun stat_keys :: "path \<Rightarrow> dir_entry list \<Rightarrow> io_event list \<times> (exn + (rat \<times> dir_entry) list)" where
  "stat_keys d [] = ([], Inr [])"
| "stat_keys d (f # fs) =
     (case entry_mtime f of
        Inl e \<Rightarrow> ([Stat (path_div d (entry_name f))], Inl e)
      | Inr t \<Rightarrow>
          (case stat_keys d fs of
             (ev, Inl e) \<Rightarrow> (Stat (path_div d (entry_name f)) # ev, Inl e)
           | (ev, Inr ks) \<Rightarrow> (Stat (path_div d (entry_name f)) # ev, Inr ((t, f) # ks))))"

text \<open>
  Then it sorts by key, descending and stable: CPython reverses the list, sorts it with
  its stable ascending sort and reverses the result.
\<close>

definition sort_newest_first :: "(rat \<times> dir_entry) list \<Rightarrow> dir_entry list" where
  "sort_newest_first ks = map snd (rev (sort_key fst (rev ks)))"

text \<open>
  \<^verbatim>\<open>
    refs = []
    for f in files[:max_count]:
        try:
            img = Image.open(f).convert("RGB")
            refs.append(img)
        except Exception:
            continue
  \<close>
\<close>

fun open_images :: "path \<Rightarrow> dir_entry list \<Rightarrow> io_event list \<times> image list" where
  "open_images d [] = ([], [])"
| "open_images d (f # fs) =
     (case open_images d fs of
        (ev, refs) \<Rightarrow>
          (ImageOpen (path_div d (entry_name f)) # ev,
           (case entry_image f of Inl e \<Rightarrow> refs | Inr img \<Rightarrow> img # refs)))"

text \<open>
  The whole loader. \<open>images_dir\<close> is \<open>None\<close> or a path (a \<open>Path\<close> object is always
  truthy); \<open>max_count\<close> is a natural number (the only caller passes 2).
\<close>

definition load_reference_images :: "world \<Rightarrow> path option \<Rightarrow> nat \<Rightarrow> io_event list \<times> (exn + image list)" where
  "load_reference_images w images_dir max_count =
     (case images_dir of
        None \<Rightarrow> ([], Inr [])
      | Some d \<Rightarrow>
          (case path_exists w d of
             Inl e \<Rightarrow> ([PathExists d], Inl e)
           | Inr False \<Rightarrow> ([PathExists d], Inr [])
           | Inr True \<Rightarrow>
               if \<not> pil_installed w then ([PathExists d, ImportModule (lit ''PIL'')], Inr [])
               else
                 (case iterdir w d of
                    Inl e \<Rightarrow> ([PathExists d, ImportModule (lit ''PIL''), IterDir d], Inl e)
                  | Inr entries \<Rightarrow>
                      (case stat_keys d (filter (supported_file w) entries) of
                         (ev, Inl e) \<Rightarrow>
                           ([PathExists d, ImportModule (lit ''PIL''), IterDir d] @ ev, Inl e)
                       | (ev, Inr ks) \<Rightarrow>
                           (case open_images d (take max_count (sort_newest_first ks)) of
                              (ev', refs) \<Rightarrow>
                                ([PathExists d, ImportModule (lit ''PIL''), IterDir d] @ ev @ ev',
                                 Inr refs))))))"

section \<open>The pipeline (\<open>generate_post_image\<close>, lines 54--162)\<close>

subsection \<open>Template and prompt (lines 18--27 and 81--89)\<close>

definition TEKSPOT_TEMPLATE :: str where
  "TEKSPOT_TEMPLATE =
     lit ''Professional LinkedIn post graphic for TEKSPOT GLOBAL SOLUTIONS. Match '' @
     lit ''the reference image style exactly: Smooth gradient background from deep '' @
     lit ''purple (left) to teal/light green (right). Include TEKSPOT GLOBAL SOLUTIONS '' @
     lit ''logo in top-left corner (white text, globe icon, clean sans-serif). Minimal '' @
     lit ''text only: one short headline, 5-10 words max. No extra copy, bullet points, '' @
     lit ''or long sentences. Include topic-relevant imagery: visuals, icons, or '' @
     lit ''metaphors that match the theme (e.g., talent/HR: people, teams, handshakes, '' @
     lit ''workforce; tech/IT: computers, digital, recruitment; skills: learning, '' @
     lit ''growth). Left side: headline text. Right side or center: relevant visual '' @
     lit ''element tied to the topic. Clean, corporate, high-end aesthetic. 16:9 '' @
     lit ''aspect ratio.''"

text \<open>
  Line 81: \<open>template_description.strip() if template_description and
  template_description.strip() else TEKSPOT_TEMPLATE\<close>.
\<close>

definition select_template :: "str option \<Rightarrow> str" where
  "select_template template_description =
     (case template_description of
        None \<Rightarrow> TEKSPOT_TEMPLATE
      | Some t \<Rightarrow> if t \<noteq> [] \<and> py_strip t \<noteq> [] then py_strip t else TEKSPOT_TEMPLATE)"

text \<open>
  The f-string of lines 83--89. Code point 34 is the double quote, 39 the apostrophe and
  8212 the em dash of the source text.
\<close>

definition assemble_prompt :: "str \<Rightarrow> str \<Rightarrow> str \<Rightarrow> str" where
  "assemble_prompt template topic headline =
     lit ''Create a new image following this exact template: '' @ template @ lit '' '' @
     lit ''Topic/theme: '' @ topic @ lit ''. '' @
     lit ''Display this headline text (bold, white, left side): '' @ [34] @ headline @ [34] @
     lit ''. '' @
     lit ''Include relevant imagery on the right or center that visually represents '' @
     lit ''the topic '' @ [8212] @
     lit '' e.g., for talent acquisition: professionals, teams, hiring; for '' @
     lit ''workforce/skills: learning, growth, people; for IT recruitment: tech, digital. '' @
     lit ''No other text. Match the reference images'' @ [39] @
     lit '' layout, colors, and Tekspot branding. Suitable for LinkedIn company post.''"

subsection \<open>The request (lines 102--120)\<close>

text \<open>
  Building the client and the configuration, and the call itself, are one operation of
  the world: its outcome for this request is \<open>generate_content w\<close>.
\<close>

definition build_request :: "world \<Rightarrow> str \<Rightarrow> image list \<Rightarrow> request" where
  "build_request w prompt ref_images =
     \<lparr> req_api_key = GEMINI_API_KEY w,
       req_model = GEMINI_IMAGE_MODEL w,
       req_contents = (if ref_images \<noteq> [] then [Text prompt] @ map Picture ref_images else [Text prompt]),
       req_response_modalities = [lit ''TEXT'', lit ''IMAGE''],
       req_aspect_ratio = lit ''16:9'',
       req_image_size = lit ''2K'' \<rparr>"

subsection \<open>Response decoding (lines 122--150)\<close>

text \<open>\<open>list(v)\<close> for the value of a parts attribute: \<open>list(None)\<close> raises \<open>TypeError\<close>.\<close>

definition TypeError_not_iterable :: exn where
  "TypeError_not_iterable = Exc ([39] @ lit ''NoneType'' @ [39] @ lit '' object is not iterable'')"

definition py_list :: "'a list option \<Rightarrow> exn + 'a list" where
  "py_list v = (case v of None \<Rightarrow> Inl TypeError_not_iterable | Some xs \<Rightarrow> Inr xs)"

text \<open>
  \<^verbatim>\<open>
    parts = []
    if hasattr(response, "parts"):
        parts = list(response.parts)
    elif hasattr(response, "candidates") and response.candidates:
        cand = response.candidates[0]
        if hasattr(cand, "content") and hasattr(cand.content, "parts"):
            parts = list(cand.content.parts)
  \<close>
\<close>

definition response_parts :: "response \<Rightarrow> exn + part list" where
  "response_parts response =
     (case resp_parts response of
        Has v \<Rightarrow> py_list v
      | Missing \<Rightarrow>
          (case resp_candidates response of
             Has (Some (cand # _)) \<Rightarrow>
               (case cand_content cand of
                  Has (Some c) \<Rightarrow>
                    (case content_parts c of Has v \<Rightarrow> py_list v | Missing \<Rightarrow> Inr [])
                | _ \<Rightarrow> Inr [])
           | _ \<Rightarrow> Inr []))"

text \<open>
  Lines 133--141, the first strategy: \<open>Some bs\<close> when the accessor exists and neither it
  nor the re-encoding raises (the loop then breaks with \<open>image_bytes = bs\<close>).
\<close>

definition try_as_image :: "world \<Rightarrow> part \<Rightarrow> bytes option" where
  "try_as_image w p =
     (case part_as_image p of
        None \<Rightarrow> None
      | Some (Inl e) \<Rightarrow> None
      | Some (Inr img) \<Rightarrow> (case png_encode w img of Inl e \<Rightarrow> None | Inr bs \<Rightarrow> Some bs))"

text \<open>Truthiness of an optional payload, and Python's \<open>a or b\<close> on two of them (line 144).\<close>

definition truthy :: "payload option \<Rightarrow> bool" where
  "truthy v = (case v of None \<Rightarrow> False | Some (PyBytes b) \<Rightarrow> b \<noteq> [] | Some (PyStr t) \<Rightarrow> t \<noteq> [])"

definition py_or :: "payload option \<Rightarrow> payload option \<Rightarrow> payload option" where
  "py_or a b = (if truthy a then a else b)"

text \<open>
  Lines 142--147, the second strategy: \<open>Inr (Some bs)\<close> when the loop breaks with
  \<open>image_bytes = bs\<close>, \<open>Inr None\<close> when it goes on, \<open>Inl e\<close> when \<open>b64decode\<close> raises.
\<close>

definition try_inline_data :: "world \<Rightarrow> part \<Rightarrow> exn + bytes option" where
  "try_inline_data w p =
     (case part_inline_data p of
        None \<Rightarrow> Inr None
      | Some blob \<Rightarrow>
          (let data = py_or (blob_data blob) (blob_image_bytes blob)
           in if truthy data
              then (case data of
                      Some (PyBytes b) \<Rightarrow> Inr (Some b)
                    | Some (PyStr t) \<Rightarrow>
                        (case b64decode w t of Inl e \<Rightarrow> Inl e | Inr b \<Rightarrow> Inr (Some b))
                    | None \<Rightarrow> Inr None)
              else Inr None))"

text \<open>The body of the loop over the parts, and the loop (lines 132--147).\<close>

definition try_part :: "world \<Rightarrow> part \<Rightarrow> exn + bytes option" where
  "try_part w p =
     (case try_as_image w p of Some bs \<Rightarrow> Inr (Some bs) | None \<Rightarrow> try_inline_data w p)"

fun scan_parts :: "world \<Rightarrow> part list \<Rightarrow> exn + bytes option" where
  "scan_parts w [] = Inr None"
| "scan_parts w (p # ps) =
     (case try_part w p of
        Inl e \<Rightarrow> Inl e
      | Inr (Some bs) \<Rightarrow> Inr (Some bs)
      | Inr None \<Rightarrow> scan_parts w ps)"

definition extract_image_bytes :: "world \<Rightarrow> response \<Rightarrow> exn + bytes option" where
  "extract_image_bytes w response =
     (case response_parts response of Inl e \<Rightarrow> Inl e | Inr parts \<Rightarrow> scan_parts w parts)"

subsection \<open>Persistence (lines 152--159)\<close>

text \<open>
  \<open>c.isalnum()\<close> for one code point: the ASCII digits and letters, and beyond ASCII what
  the interpreter's table says.
\<close>

definition py_isalnum :: "world \<Rightarrow> nat \<Rightarrow> bool" where
  "py_isalnum w c \<longleftrightarrow>
     (if c < 128 then (48 \<le> c \<and> c \<le> 57) \<or> (65 \<le> c \<and> c \<le> 90) \<or> (97 \<le> c \<and> c \<le> 122)
      else unicode_isalnum w c)"

text \<open>
  \<^verbatim>\<open>
    safe_name = "".join(
        c if c.isalnum() or c in " -_" else "_" for c in topic[:50]
    )
  \<close>
\<close>

definition safe_name :: "world \<Rightarrow> str \<Rightarrow> str" where
  "safe_name w topic =
     map (\<lambda>c. if py_isalnum w c \<or> c \<in> set (lit '' -_'') then c else 95) (take 50 topic)"

text \<open>\<open>str(n)\<close> for an integer: its decimal digits, after a minus sign when negative.\<close>

function str_nat :: "nat \<Rightarrow> str" where
  "str_nat n = (if n < 10 then [48 + n] else str_nat (n div 10) @ [48 + n mod 10])"
  by pat_completeness auto
termination
  by (relation "measure id") auto

declare str_nat.simps [simp del]

definition str_int :: "int \<Rightarrow> str" where
  "str_int i = (if i < 0 then 45 # str_nat (nat (- i)) else str_nat (nat i))"

text \<open>The name of the output file (line 155).\<close>

definition image_file_name :: "world \<Rightarrow> str \<Rightarrow> str" where
  "image_file_name w topic =
     lit ''linkedin_image_'' @ safe_name w topic @ lit ''_'' @ str_int (unix_time w) @ lit ''.png''"

text \<open>
  \<^verbatim>\<open>
    fpath = OUTPUT_DIR / f"linkedin_image_{safe_name}_{int(time.time())}.png"
    img = PILImage.open(BytesIO(image_bytes))
    img.save(str(fpath), format="PNG")
    return fpath, None
  \<close>
\<close>

definition persist_image :: "world \<Rightarrow> str \<Rightarrow> bytes \<Rightarrow> io_event list \<times> (exn + path)" where
  "persist_image w topic image_bytes =
     (let fpath = path_div (OUTPUT_DIR w) (image_file_name w topic)
      in case image_open_bytes w image_bytes of
           Inl e \<Rightarrow> ([TimeTime], Inl e)
         | Inr img \<Rightarrow>
             (case image_save w fpath img of
                Some e \<Rightarrow> ([TimeTime, ImageSave fpath], Inl e)
              | None \<Rightarrow> ([TimeTime, ImageSave fpath], Inr fpath)))"

subsection \<open>The guarded block (lines 101--162) and the whole function\<close>

definition no_image_message :: str where
  "no_image_message = lit ''No image in Gemini response''"

definition missing_key_message :: str where
  "missing_key_message = lit ''GEMINI_API_KEY is not set in .env''"

definition install_message :: str where
  "install_message = lit ''Install google-genai: pip install google-genai''"

text \<open>
  The body of the \<open>try\<close> of line 101: \<open>Inl e\<close> when it raises \<open>e\<close>, \<open>Inr r\<close> when it
  returns \<open>r\<close>. \<open>not image_bytes\<close> holds for \<open>None\<close> and for empty bytes.
\<close>

definition try_block ::
  "world \<Rightarrow> str \<Rightarrow> str \<Rightarrow> image list \<Rightarrow> io_event list \<times> (exn + (path option \<times> str option))" where
  "try_block w topic prompt ref_images =
     (let req = build_request w prompt ref_images
      in case generate_content w req of
           Inl e \<Rightarrow> ([GenerateContent req], Inl e)
         | Inr response \<Rightarrow>
             (case extract_image_bytes w response of
                Inl e \<Rightarrow> ([GenerateContent req], Inl e)
              | Inr None \<Rightarrow> ([GenerateContent req], Inr (None, Some no_image_message))
              | Inr (Some image_bytes) \<Rightarrow>
                  if image_bytes = [] then ([GenerateContent req], Inr (None, Some no_image_message))
                  else
                    (case persist_image w topic image_bytes of
                       (ev, Inl e) \<Rightarrow> (GenerateContent req # ev, Inl e)
                     | (ev, Inr fpath) \<Rightarrow> (GenerateContent req # ev, Inr (Some fpath, None)))))"

text \<open>
  The imports of lines 94--99: \<open>google.genai\<close> first, then PIL; an \<open>ImportError\<close> from
  either returns the install message.
\<close>

definition import_clients :: "world \<Rightarrow> io_event list \<times> bool" where
  "import_clients w =
     (if \<not> genai_installed w then ([ImportModule (lit ''google.genai'')], False)
      else ([ImportModule (lit ''google.genai''), ImportModule (lit ''PIL'')], pil_installed w))"

text \<open>
  \<open>generate_post_image\<close>: the operations performed, and how the call ends. \<open>style\<close> is a
  parameter of the function. \<open>reference_images_dir or IMAGES_DIR\<close> is the given path, or
  \<open>IMAGES_DIR\<close> for \<open>None\<close>. \<open>ensure_dirs()\<close> (line 70) and the loader (line 92) are called
  outside the \<open>try\<close>: what they raise leaves the function; what the \<open>try\<close> block raises
  is returned as \<open>(None, str(e))\<close>.
\<close>

definition generate_post_image ::
  "world \<Rightarrow> str \<Rightarrow> str \<Rightarrow> str option \<Rightarrow> str option \<Rightarrow> path option \<Rightarrow>
   io_event list \<times> (path option \<times> str option) outcome" where
  "generate_post_image w topic style template_description hero_copy reference_images_dir =
     (if GEMINI_API_KEY w = [] then ([], Returned (None, Some missing_key_message))
      else
        (case ensure_dirs w of
           (ev1, Some e) \<Rightarrow> (ev1, Raised e)
         | (ev1, None) \<Rightarrow>
             (let headline = derive_headline hero_copy topic;
                  template = select_template template_description;
                  prompt = assemble_prompt template topic headline;
                  ref_dir = (case reference_images_dir of Some d \<Rightarrow> d | None \<Rightarrow> IMAGES_DIR w)
              in case load_reference_images w (Some ref_dir) 2 of
                   (ev2, Inl e) \<Rightarrow> (ev1 @ ev2, Raised e)
                 | (ev2, Inr ref_images) \<Rightarrow>
                     (case import_clients w of
                        (ev3, False) \<Rightarrow> (ev1 @ ev2 @ ev3, Returned (None, Some install_message))
                      | (ev3, True) \<Rightarrow>
                          (case try_block w topic prompt ref_images of
                             (ev4, Inl e) \<Rightarrow>
                               (ev1 @ ev2 @ ev3 @ ev4, Returned (None, Some (exc_str e)))
                           | (ev4, Inr r) \<Rightarrow> (ev1 @ ev2 @ ev3 @ ev4, Returned r))))))"

section \<open>Path conditions and concrete worlds\<close>

text \<open>
  \<open>reaches_decoding\<close>: the call gets as far as line 122 with the response \<open>r\<close>: the key is
  set, both directories could be made, the loader returned, both imports succeeded and
  the remote call returned \<open>r\<close> for the request built from the call's arguments.
\<close>

definition reference_dir :: "world \<Rightarrow> path option \<Rightarrow> path" where
  "reference_dir w reference_images_dir =
     (case reference_images_dir of Some d \<Rightarrow> d | None \<Rightarrow> IMAGES_DIR w)"

definition prompt_of :: "str \<Rightarrow> str option \<Rightarrow> str option \<Rightarrow> str" where
  "prompt_of topic template_description hero_copy =
     assemble_prompt (select_template template_description) topic (derive_headline hero_copy topic)"

definition reaches_decoding ::
  "world \<Rightarrow> str \<Rightarrow> str option \<Rightarrow> str option \<Rightarrow> path option \<Rightarrow> response \<Rightarrow> bool" where
  "reaches_decoding w topic template_description hero_copy reference_images_dir r \<longleftrightarrow>
     GEMINI_API_KEY w \<noteq> [] \<and>
     snd (ensure_dirs w) = None \<and>
     snd (import_clients w) \<and>
     (case snd (load_reference_images w (Some (reference_dir w reference_images_dir)) 2) of
        Inl e \<Rightarrow> False
      | Inr ref_images \<Rightarrow>
          generate_content w
            (build_request w (prompt_of topic template_description hero_copy) ref_images) = Inr r)"

text \<open>
  The reading of the decoding step that searches the flat parts and then the parts under
  the first candidate's content, as one sequence: stated from the specification, to be
  compared with \<open>response_parts\<close>.
\<close>

definition flat_parts :: "response \<Rightarrow> part list" where
  "flat_parts r = (case resp_parts r of Has (Some ps) \<Rightarrow> ps | _ \<Rightarrow> [])"

definition nested_parts :: "response \<Rightarrow> part list" where
  "nested_parts r =
     (case resp_candidates r of
        Has (Some (cand # _)) \<Rightarrow>
          (case cand_content cand of
             Has (Some c) \<Rightarrow> (case content_parts c of Has (Some ps) \<Rightarrow> ps | _ \<Rightarrow> [])
           | _ \<Rightarrow> [])
      | _ \<Rightarrow> [])"

definition spec_search_order :: "response \<Rightarrow> part list" where
  "spec_search_order r = flat_parts r @ nested_parts r"

text \<open>Concrete parts, responses, a directory and a world, for evaluating the model.\<close>

definition png_bytes :: bytes where
  "png_bytes = [137, 80, 78, 71, 13, 10, 26, 10]"

definition text_part :: part where
  "text_part = \<lparr> part_as_image = None, part_inline_data = None \<rparr>"

definition inline_part :: part where
  "inline_part =
     \<lparr> part_as_image = None,
       part_inline_data = Some \<lparr> blob_data = Some (PyBytes png_bytes), blob_image_bytes = None \<rparr> \<rparr>"

definition accessor_part :: part where
  "accessor_part =
     \<lparr> part_as_image = Some (Inr (Image 7)),
       part_inline_data = Some \<lparr> blob_data = Some (PyBytes [1, 2, 3]), blob_image_bytes = None \<rparr> \<rparr>"

definition flat_response :: response where
  "flat_response = \<lparr> resp_parts = Has (Some [text_part, inline_part]), resp_candidates = Missing \<rparr>"

definition nested_image_candidates :: "candidate list option attr" where
  "nested_image_candidates = Has (Some [Candidate (Has (Some (Content (Has (Some [inline_part])))))])"

definition text_flat_response :: response where
  "text_flat_response =
     \<lparr> resp_parts = Has (Some [text_part]), resp_candidates = nested_image_candidates \<rparr>"

definition empty_flat_response :: response where
  "empty_flat_response = \<lparr> resp_parts = Has (Some []), resp_candidates = nested_image_candidates \<rparr>"

definition example_dir :: "dir_entry list" where
  "example_dir =
     [\<lparr> entry_name = lit ''a.png'', entry_mtime = Inr 3, entry_image = Inr (Image 1) \<rparr>,
      \<lparr> entry_name = lit ''notes.txt'', entry_mtime = Inr 9, entry_image = Inl (Exc (lit ''cannot identify image file'')) \<rparr>,
      \<lparr> entry_name = lit ''c.JPG'', entry_mtime = Inr 5, entry_image = Inl (Exc (lit ''cannot identify image file'')) \<rparr>,
      \<lparr> entry_name = lit ''d.webp'', entry_mtime = Inr 1, entry_image = Inr (Image 4) \<rparr>]"

definition responding_world :: "response \<Rightarrow> world" where
  "responding_world r =
     \<lparr> getenv = (\<lambda>name. if name = lit ''GEMINI_API_KEY'' then Some (lit ''secret'') else None),
       BASE_DIR = [lit ''/'', lit ''app''],
       unicode_isalnum = (\<lambda>c. False),
       unicode_lower = (\<lambda>c. [c]),
       mkdir = (\<lambda>p. None),
       path_exists = (\<lambda>p. Inr True),
       pil_installed = True,
       genai_installed = True,
       iterdir = (\<lambda>p. Inr example_dir),
       generate_content = (\<lambda>req. Inr r),
       png_encode = (\<lambda>img. Inr png_bytes),
       b64decode = (\<lambda>t. Inl (Exc (lit ''Incorrect padding''))),
       image_open_bytes = (\<lambda>b. Inr (Image 9)),
       image_save = (\<lambda>p img. None),
       unix_time = 1700000000 \<rparr>"

definition example_world :: world where
  "example_world = responding_world flat_response"

text \<open>The same world without a key in the environment.\<close>

definition keyless_world :: world where
  "keyless_world = example_world \<lparr> getenv := (\<lambda>name. None) \<rparr>"

text \<open>
  The same world where the reference directory handed to the call is a regular file:
  \<open>exists()\<close> is true and \<open>iterdir()\<close> raises \<open>NotADirectoryError\<close>.
\<close>

definition NotADirectoryError :: exn where
  "NotADirectoryError = Exc (lit ''[Errno 20] Not a directory'')"

definition file_as_dir_world :: world where
  "file_as_dir_world = example_world \<lparr> iterdir := (\<lambda>p. Inl NotADirectoryError) \<rparr>"

text \<open>The same world where the reference directory is missing, and where PIL is.\<close>

definition missing_dir_world :: world where
  "missing_dir_world = example_world \<lparr> path_exists := (\<lambda>p. Inr False) \<rparr>"

definition no_pil_world :: world where
  "no_pil_world = example_world \<lparr> pil_installed := False \<rparr>"

text \<open>
  A part whose inline data is text that is not valid base64 (\<open>base64.b64decode("abc")\<close>
  raises \<open>binascii.Error: Incorrect padding\<close>), and a response made of it.
\<close>

definition garbled_part :: part where
  "garbled_part =
     \<lparr> part_as_image = None,
       part_inline_data = Some \<lparr> blob_data = Some (PyStr (lit ''abc'')), blob_image_bytes = None \<rparr> \<rparr>"

definition garbled_response :: response where
  "garbled_response = \<lparr> resp_parts = Has (Some [garbled_part]), resp_candidates = Missing \<rparr>"

text \<open>A response without a flat parts attribute.\<close>

definition nested_response :: response where
  "nested_response = \<lparr> resp_parts = Missing, resp_candidates = nested_image_candidates \<rparr>"

section \<open>Properties of the string operations\<close>

lemma lit_space: "lit '' '' = [32]"
  by (simp add: lit_def)

lemma py_isspace_32: "py_isspace 32"
  by (simp add: py_isspace_def)

lemma split_from_append_space:
  "py_isspace c \<Longrightarrow> split_from cur (s @ [c]) = split_from cur s"
  by (induction s arbitrary: cur) auto

lemma split_from_dropWhile:
  "split_from [] (dropWhile py_isspace s) = split_from [] s"
  by (induction s) auto

lemma split_from_rstrip:
  "split_from cur (rev (dropWhile py_isspace (rev s))) = split_from cur s"
proof (induction s rule: rev_induct)
  case Nil
  then show ?case by simp
next
  case (snoc x xs)
  then show ?case by (cases "py_isspace x") (simp_all add: split_from_append_space)
qed

lemma py_split_strip: "py_split (py_strip s) = py_split s"
  by (simp add: py_split_def py_strip_def split_from_rstrip split_from_dropWhile)

lemma split_from_token:
  "\<forall>c\<in>set w. \<not> py_isspace c \<Longrightarrow> split_from cur (w @ rest) = split_from (cur @ w) rest"
  by (induction w arbitrary: cur) auto

lemma split_from_tokens:
  "\<forall>c\<in>set cur. \<not> py_isspace c \<Longrightarrow> w \<in> set (split_from cur s) \<Longrightarrow>
   w \<noteq> [] \<and> (\<forall>c\<in>set w. \<not> py_isspace c)"
proof (induction s arbitrary: cur)
  case Nil
  then show ?case by (cases "cur = []") simp_all
next
  case (Cons a s)
  show ?case
  proof (cases "py_isspace a")
    case True
    show ?thesis
    proof (cases "cur = []")
      case True
      with \<open>py_isspace a\<close> Cons.prems have "w \<in> set (split_from [] s)" by simp
      then show ?thesis using Cons.IH [of "[]"] by simp
    next
      case False
      with \<open>py_isspace a\<close> Cons.prems have "w = cur \<or> w \<in> set (split_from [] s)" by simp
      moreover have "w \<in> set (split_from [] s) \<Longrightarrow> ?thesis" using Cons.IH [of "[]"] by simp
      ultimately show ?thesis using Cons.prems(1) False by blast
    qed
  next
    case False
    with Cons.prems have "w \<in> set (split_from (cur @ [a]) s)" by simp
    moreover have "\<forall>c\<in>set (cur @ [a]). \<not> py_isspace c" using False Cons.prems(1) by simp
    ultimately show ?thesis using Cons.IH [of "cur @ [a]"] by blast
  qed
qed

lemma py_split_tokens: "w \<in> set (py_split s) \<Longrightarrow> w \<noteq> [] \<and> (\<forall>c\<in>set w. \<not> py_isspace c)"
  using split_from_tokens [of "[]" w s] by (simp add: py_split_def)

lemma py_split_join:
  "\<forall>w\<in>set ws. w \<noteq> [] \<and> (\<forall>c\<in>set w. \<not> py_isspace c) \<Longrightarrow> py_split (py_join [32] ws) = ws"
proof (induction ws)
  case Nil
  then show ?case by (simp add: py_split_def)
next
  case (Cons w ws)
  then have w: "w \<noteq> []" "\<forall>c\<in>set w. \<not> py_isspace c" by simp_all
  show ?case
  proof (cases ws)
    case Nil
    then show ?thesis using w split_from_token [of w "[]" "[]"] by (simp add: py_split_def)
  next
    case (Cons v vs)
    have "py_split (py_join [32] (w # ws)) = split_from [] (w @ 32 # py_join [32] ws)"
      using Cons by (simp add: py_split_def)
    also have "\<dots> = split_from w (32 # py_join [32] ws)"
      using split_from_token [OF w(2), of "[]"] by simp
    also have "\<dots> = w # py_split (py_join [32] ws)"
      using w by (simp add: py_split_def py_isspace_32)
    also have "\<dots> = w # ws"
      using Cons.IH Cons.prems by simp
    finally show ?thesis .
  qed
qed

lemma py_join_eq_Nil:
  "\<forall>w\<in>set ws. w \<noteq> [] \<Longrightarrow> py_join sep ws = [] \<longleftrightarrow> ws = []"
  by (induction sep ws rule: py_join.induct) auto

lemma split_from_Nil_iff:
  "split_from cur s = [] \<longleftrightarrow> cur = [] \<and> (\<forall>c\<in>set s. py_isspace c)"
  by (induction cur s rule: split_from.induct) auto

lemma py_split_Nil_iff: "py_split s = [] \<longleftrightarrow> (\<forall>c\<in>set s. py_isspace c)"
  by (simp add: py_split_def split_from_Nil_iff)

lemma Ball_dropWhile: "(\<forall>x\<in>set (dropWhile P s). P x) \<longleftrightarrow> (\<forall>x\<in>set s. P x)"
proof
  assume a: "\<forall>x\<in>set (dropWhile P s). P x"
  have "dropWhile P s = []"
  proof (rule ccontr)
    assume n: "dropWhile P s \<noteq> []"
    then have "\<not> P (hd (dropWhile P s))" by (rule hd_dropWhile)
    moreover have "hd (dropWhile P s) \<in> set (dropWhile P s)" using n by simp
    ultimately show False using a by blast
  qed
  then show "\<forall>x\<in>set s. P x" by (simp only: dropWhile_eq_Nil_conv)
next
  assume "\<forall>x\<in>set s. P x"
  then show "\<forall>x\<in>set (dropWhile P s). P x" by (blast dest: set_dropWhileD)
qed

lemma dropWhile_rev_Nil: "rev (dropWhile P (rev (dropWhile P s))) = [] \<longleftrightarrow> (\<forall>c\<in>set s. P c)"
  by (simp add: Ball_dropWhile)

lemma py_strip_Nil_iff: "py_strip s = [] \<longleftrightarrow> (\<forall>c\<in>set s. py_isspace c)"
  unfolding py_strip_def by (rule dropWhile_rev_Nil)

lemma take_tokens:
  "w \<in> set (take n (py_split s)) \<Longrightarrow> w \<noteq> [] \<and> (\<forall>c\<in>set w. \<not> py_isspace c)"
  using py_split_tokens [of w s] by (blast dest: in_set_takeD)

lemma py_split_join_take:
  "py_split (py_join (lit '' '') (take n (py_split s))) = take n (py_split s)"
  unfolding lit_space by (rule py_split_join) (blast dest: take_tokens)

lemma py_join_take_Nil:
  "py_join sep (take n (py_split s)) = [] \<longleftrightarrow> n = 0 \<or> (\<forall>c\<in>set s. py_isspace c)"
proof -
  have "\<forall>w\<in>set (take n (py_split s)). w \<noteq> []" by (blast dest: take_tokens)
  then have "py_join sep (take n (py_split s)) = [] \<longleftrightarrow> take n (py_split s) = []"
    by (rule py_join_eq_Nil)
  then show ?thesis by (simp add: py_split_Nil_iff)
qed

section \<open>The derived headline\<close>

lemma derive_headline_hero:
  assumes "\<exists>c\<in>set h. \<not> py_isspace c"
  shows "derive_headline (Some h) topic = py_join (lit '' '') (take 10 (py_split h))"
proof -
  have "h \<noteq> []" using assms by auto
  moreover have "py_strip h \<noteq> []" using assms by (simp add: py_strip_Nil_iff)
  moreover have "py_join (lit '' '') (take 10 (py_split h)) \<noteq> []"
    using assms by (simp add: py_join_take_Nil)
  ultimately show ?thesis by (simp add: derive_headline_def py_split_strip)
qed

lemma derive_headline_fallback:
  assumes "hero_copy = None \<or> (\<exists>h. hero_copy = Some h \<and> (\<forall>c\<in>set h. py_isspace c))"
  shows "derive_headline hero_copy topic = py_join (lit '' '') (take 8 (py_split topic))"
  using assms by (auto simp: derive_headline_def py_split_strip py_strip_Nil_iff)

text \<open>
  Claim C4, as the code has it. A \<open>hero_copy\<close> with at least one non-whitespace code point
  gives the headline: its first ten whitespace-delimited tokens joined by single spaces,
  so the headline has at most ten tokens and they are a prefix of the tokens of
  \<open>hero_copy\<close>. A \<open>hero_copy\<close> that is absent, empty or all whitespace gives the first
  eight tokens of \<open>topic\<close>, joined by single spaces.
\<close>

theorem headline_from_hero_copy_or_topic:
  "((\<exists>c\<in>set h. \<not> py_isspace c) \<longrightarrow>
      derive_headline (Some h) topic = py_join (lit '' '') (take 10 (py_split h)) \<and>
      py_split (derive_headline (Some h) topic) = take 10 (py_split h) \<and>
      length (py_split (derive_headline (Some h) topic)) \<le> 10 \<and>
      prefix (py_split (derive_headline (Some h) topic)) (py_split h)) \<and>
   ((\<forall>c\<in>set h. py_isspace c) \<longrightarrow>
      derive_headline (Some h) topic = py_join (lit '' '') (take 8 (py_split topic))) \<and>
   derive_headline None topic = py_join (lit '' '') (take 8 (py_split topic))"
proof (intro conjI impI)
  assume a: "\<exists>c\<in>set h. \<not> py_isspace c"
  show e: "derive_headline (Some h) topic = py_join (lit '' '') (take 10 (py_split h))"
    using a by (rule derive_headline_hero)
  show t: "py_split (derive_headline (Some h) topic) = take 10 (py_split h)"
    unfolding e by (rule py_split_join_take)
  show "length (py_split (derive_headline (Some h) topic)) \<le> 10"
    unfolding t by simp
  show "prefix (py_split (derive_headline (Some h) topic)) (py_split h)"
    unfolding t by (rule take_is_prefix)
next
  assume "\<forall>c\<in>set h. py_isspace c"
  then show "derive_headline (Some h) topic = py_join (lit '' '') (take 8 (py_split topic))"
    by (simp add: derive_headline_fallback)
next
  show "derive_headline None topic = py_join (lit '' '') (take 8 (py_split topic))"
    by (simp add: derive_headline_fallback)
qed

theorem headline_from_hero_copy_or_topic_witness:
  "(\<exists>c\<in>set (lit ''Hire  smart''). \<not> py_isspace c) \<and>
   list_all py_isspace (lit '' '') \<and>
   py_split (derive_headline (Some (lit ''Hire  smart'')) (lit ''AI'')) = take 10 (py_split (lit ''Hire  smart'')) \<and>
   derive_headline (Some (lit '' '')) (lit ''AI'') = py_join (lit '' '') (take 8 (py_split (lit ''AI''))) \<and>
   derive_headline None (lit ''AI'') = py_join (lit '' '') (take 8 (py_split (lit ''AI'')))"
proof -
  have a: "\<exists>c\<in>set (lit ''Hire  smart''). \<not> py_isspace c"
    by (simp add: lit_def py_isspace_def)
  have b: "\<forall>c\<in>set (lit '' ''). py_isspace c"
    by (simp add: lit_def py_isspace_def)
  show ?thesis
    using a b headline_from_hero_copy_or_topic [of "lit ''Hire  smart''" "lit ''AI''"]
      headline_from_hero_copy_or_topic [of "lit '' ''" "lit ''AI''"]
    unfolding list_all_iff by blast
qed

text \<open>
  Claim C4 as stated fails: a \<open>hero_copy\<close> of one space is non-empty, and the headline
  is then taken from the topic, whose tokens are no prefix of the (empty) token list of
  \<open>hero_copy\<close>.
\<close>

theorem headline_whitespace_hero_copy_counterexample:
  "lit '' '' \<noteq> [] \<and>
   derive_headline (Some (lit '' '')) (lit ''AI'') = lit ''AI'' \<and>
   \<not> prefix (py_split (derive_headline (Some (lit '' '')) (lit ''AI''))) (py_split (lit '' ''))"
  by (simp add: derive_headline_def lit_def py_strip_def py_split_def py_isspace_def)

text \<open>
  Claim C8, as the code has it: a topic with at least one non-whitespace code point gives
  a non-empty headline, whatever \<open>hero_copy\<close> is.
\<close>

theorem headline_nonempty:
  "(\<exists>c\<in>set topic. \<not> py_isspace c) \<Longrightarrow> derive_headline hero_copy topic \<noteq> []"
proof -
  assume t: "\<exists>c\<in>set topic. \<not> py_isspace c"
  have fb: "py_join (lit '' '') (take 8 (py_split topic)) \<noteq> []"
    using t by (simp add: py_join_take_Nil)
  show ?thesis
  proof (cases "\<exists>h. hero_copy = Some h \<and> (\<exists>c\<in>set h. \<not> py_isspace c)")
    case True
    then obtain h where h: "hero_copy = Some h" "\<exists>c\<in>set h. \<not> py_isspace c" by blast
    then show ?thesis by (simp add: derive_headline_hero py_join_take_Nil)
  next
    case False
    then have "hero_copy = None \<or> (\<exists>h. hero_copy = Some h \<and> (\<forall>c\<in>set h. py_isspace c))"
      by (cases hero_copy) auto
    then show ?thesis using fb by (simp add: derive_headline_fallback)
  qed
qed

theorem headline_nonempty_witness:
  "(\<exists>c\<in>set (lit ''AI hiring''). \<not> py_isspace c) \<and>
   derive_headline (Some (lit '' '')) (lit ''AI hiring'') \<noteq> []"
proof -
  have h: "\<exists>c\<in>set (lit ''AI hiring''). \<not> py_isspace c"
    by (simp add: lit_def py_isspace_def)
  show ?thesis using h headline_nonempty [OF h] by simp
qed

text \<open>
  Claim C8 as stated fails: a topic of one space is non-empty and its headline is empty,
  with \<open>hero_copy\<close> absent or blank.
\<close>

theorem headline_blank_topic_counterexample:
  "lit '' '' \<noteq> [] \<and> derive_headline None (lit '' '') = [] \<and>
   derive_headline (Some (lit ''  '')) (lit '' '') = []"
  by (simp add: derive_headline_def lit_def py_strip_def py_split_def py_isspace_def)

section \<open>How a call ends\<close>

lemma generate_post_image_result:
  "snd (generate_post_image w topic style template_description hero_copy reference_images_dir) =
     (if GEMINI_API_KEY w = [] then Returned (None, Some missing_key_message)
      else case snd (ensure_dirs w) of
             Some e \<Rightarrow> Raised e
           | None \<Rightarrow>
               (case snd (load_reference_images w (Some (reference_dir w reference_images_dir)) 2) of
                  Inl e \<Rightarrow> Raised e
                | Inr ref_images \<Rightarrow>
                    if \<not> snd (import_clients w) then Returned (None, Some install_message)
                    else (case snd (try_block w topic (prompt_of topic template_description hero_copy) ref_images) of
                            Inl e \<Rightarrow> Returned (None, Some (exc_str e))
                          | Inr r \<Rightarrow> Returned r)))"
  by (simp add: generate_post_image_def reference_dir_def prompt_of_def Let_def
           split: prod.splits option.splits sum.splits bool.splits)

lemma try_block_result:
  "snd (try_block w topic prompt ref_images) =
     (case generate_content w (build_request w prompt ref_images) of
        Inl e \<Rightarrow> Inl e
      | Inr r \<Rightarrow>
          (case extract_image_bytes w r of
             Inl e \<Rightarrow> Inl e
           | Inr None \<Rightarrow> Inr (None, Some no_image_message)
           | Inr (Some bs) \<Rightarrow>
               if bs = [] then Inr (None, Some no_image_message)
               else (case snd (persist_image w topic bs) of
                       Inl e \<Rightarrow> Inl e
                     | Inr fpath \<Rightarrow> Inr (Some fpath, None))))"
  by (simp add: try_block_def Let_def split: prod.splits option.splits sum.splits)

lemma try_block_one_arm:
  "snd (try_block w topic prompt ref_images) = Inr (p, e) \<Longrightarrow>
   (p \<noteq> None \<and> e = None) \<or> (p = None \<and> e \<noteq> None)"
  by (auto simp: try_block_result split: sum.splits option.splits if_splits)

lemma reaches_decoding_result:
  "reaches_decoding w topic td hc rd r \<Longrightarrow>
   snd (generate_post_image w topic style td hc rd) =
     (case extract_image_bytes w r of
        Inl e \<Rightarrow> Returned (None, Some (exc_str e))
      | Inr None \<Rightarrow> Returned (None, Some no_image_message)
      | Inr (Some bs) \<Rightarrow>
          if bs = [] then Returned (None, Some no_image_message)
          else (case snd (persist_image w topic bs) of
                  Inl e \<Rightarrow> Returned (None, Some (exc_str e))
                | Inr fpath \<Rightarrow> Returned (Some fpath, None)))"
  by (auto simp: reaches_decoding_def generate_post_image_result try_block_result
           split: sum.splits option.splits)

lemma returned_path:
  "snd (generate_post_image w topic style td hc rd) = Returned (Some fpath, e) \<Longrightarrow>
   fpath = path_div (OUTPUT_DIR w) (image_file_name w topic)"
  by (auto simp: generate_post_image_result try_block_result persist_image_def Let_def
                 missing_key_message_def install_message_def
           split: if_splits option.splits sum.splits)

section \<open>The concrete worlds, evaluated\<close>

lemma responding_key: "GEMINI_API_KEY (responding_world r) = lit ''secret''"
  by (simp add: GEMINI_API_KEY_def os_getenv_def responding_world_def py_strip_def lit_def py_isspace_def)

lemma responding_key_set: "GEMINI_API_KEY (responding_world r) \<noteq> []"
  by (simp add: responding_key lit_def)

lemma responding_ensure_dirs:
  "ensure_dirs (responding_world r) =
     ([MkDir (DATA_DIR (responding_world r)), MkDir (OUTPUT_DIR (responding_world r))], None)"
  by (simp add: ensure_dirs_def) (simp add: responding_world_def)

lemma responding_imports:
  "import_clients (responding_world r) =
     ([ImportModule (lit ''google.genai''), ImportModule (lit ''PIL'')], True)"
  by (simp add: import_clients_def responding_world_def)

lemma responding_supported:
  "filter (supported_file (responding_world r)) example_dir =
     [example_dir ! 0, example_dir ! 2, example_dir ! 3]"
  by (simp add: supported_file_def supported_def py_lower_def example_dir_def responding_world_def
        path_suffix_def rfind_def lit_def)

lemma responding_load:
  "snd (load_reference_images (responding_world r) (Some d) 2) = Inr [Image 1]"
proof -
  have "iterdir (responding_world r) d = Inr example_dir"
       "path_exists (responding_world r) d = Inr True"
       "pil_installed (responding_world r)"
    by (simp_all add: responding_world_def)
  then show ?thesis
    by (simp add: load_reference_images_def responding_supported)
       (simp add: example_dir_def sort_newest_first_def)
qed

lemma responding_generate: "generate_content (responding_world r) req = Inr r"
  by (simp add: responding_world_def)

lemma responding_reaches_decoding:
  "reaches_decoding (responding_world r) topic td hc rd r"
  by (simp add: reaches_decoding_def responding_key_set responding_ensure_dirs responding_imports
        responding_load responding_generate)

lemma try_part_text: "try_part w text_part = Inr None"
  by (simp add: try_part_def try_as_image_def try_inline_data_def text_part_def)

lemma try_part_inline: "try_part w inline_part = Inr (Some png_bytes)"
  by (simp add: try_part_def try_as_image_def try_inline_data_def inline_part_def py_or_def
        truthy_def png_bytes_def)

lemma responding_persist:
  "snd (persist_image (responding_world r) topic bs) =
     Inr (path_div (OUTPUT_DIR (responding_world r)) (image_file_name (responding_world r) topic))"
  by (simp add: persist_image_def Let_def) (simp add: responding_world_def)

lemma example_result:
  "snd (generate_post_image example_world topic style td hc rd) =
     Returned (Some (path_div (OUTPUT_DIR example_world) (image_file_name example_world topic)), None)"
  unfolding example_world_def
  by (simp add: reaches_decoding_result [OF responding_reaches_decoding] extract_image_bytes_def
        response_parts_def py_list_def flat_response_def try_part_text try_part_inline
        responding_persist) (simp add: png_bytes_def)

lemma example_safe_name: "safe_name example_world (lit ''AI & Recruiting!!'') = lit ''AI _ Recruiting__''"
  by (simp add: safe_name_def py_isalnum_def lit_def)

lemma str_int_example: "str_int 1700000000 = lit ''1700000000''"
  by (simp add: str_int_def str_nat.simps lit_def)

lemma keyless_world_key: "GEMINI_API_KEY keyless_world = []"
  by (simp add: GEMINI_API_KEY_def os_getenv_def keyless_world_def example_world_def responding_world_def py_strip_def)

lemma file_as_dir_key: "GEMINI_API_KEY file_as_dir_world \<noteq> []"
  by (simp add: GEMINI_API_KEY_def os_getenv_def file_as_dir_world_def example_world_def
        responding_world_def py_strip_def lit_def py_isspace_def)

section \<open>Failures and the two-armed result\<close>

text \<open>
  Claim C1, at a failing input. The key is set, and the reference directory handed to the
  call is an existing regular file (the topics workbook of \<open>config.py\<close>): \<open>exists()\<close> is
  true, \<open>iterdir()\<close> raises \<open>NotADirectoryError\<close> inside the loader, which line 92 calls
  before the \<open>try\<close> of line 101, and the exception leaves \<open>generate_post_image\<close> instead
  of coming back as the second element of a pair.
\<close>

theorem reference_dir_listing_failure_is_raised:
  "generate_post_image file_as_dir_world (lit ''AI hiring'') (lit ''clean'') None None
      (Some [lit ''/'', lit ''app'', lit ''data'', lit ''topics.xlsx'']) =
     ([MkDir [lit ''/'', lit ''app'', lit ''data''], MkDir [lit ''/'', lit ''app'', lit ''output''],
       PathExists [lit ''/'', lit ''app'', lit ''data'', lit ''topics.xlsx''],
       ImportModule (lit ''PIL''),
       IterDir [lit ''/'', lit ''app'', lit ''data'', lit ''topics.xlsx'']],
      Raised NotADirectoryError)"
proof -
  have e: "ensure_dirs file_as_dir_world =
      ([MkDir [lit ''/'', lit ''app'', lit ''data''], MkDir [lit ''/'', lit ''app'', lit ''output'']], None)"
    by (simp add: ensure_dirs_def DATA_DIR_def OUTPUT_DIR_def path_div_def file_as_dir_world_def
          example_world_def responding_world_def)
  have l: "load_reference_images file_as_dir_world (Some [lit ''/'', lit ''app'', lit ''data'', lit ''topics.xlsx'']) 2 =
      ([PathExists [lit ''/'', lit ''app'', lit ''data'', lit ''topics.xlsx''], ImportModule (lit ''PIL''),
        IterDir [lit ''/'', lit ''app'', lit ''data'', lit ''topics.xlsx'']], Inl NotADirectoryError)"
    by (simp add: load_reference_images_def file_as_dir_world_def example_world_def responding_world_def)
  show ?thesis
    by (simp add: generate_post_image_def file_as_dir_key e l)
qed

text \<open>
  Claim C2: with an empty configured key the call returns the configuration error and has
  performed no operation on the outside world at all (the list of operations is empty).
\<close>

theorem missing_key_returns_before_any_io:
  "GEMINI_API_KEY w = [] \<Longrightarrow>
   generate_post_image w topic style template_description hero_copy reference_images_dir =
     ([], Returned (None, Some (lit ''GEMINI_API_KEY is not set in .env'')))"
  by (simp add: generate_post_image_def missing_key_message_def)

theorem missing_key_returns_before_any_io_witness:
  "GEMINI_API_KEY keyless_world = [] \<and>
   generate_post_image keyless_world (lit ''AI hiring'') (lit ''clean'') None None None =
     ([], Returned (None, Some (lit ''GEMINI_API_KEY is not set in .env'')))"
  using keyless_world_key missing_key_returns_before_any_io [OF keyless_world_key]
  by simp

text \<open>
  Claim C7: whenever the call returns a pair, exactly one of its two elements is \<open>None\<close>.
\<close>

theorem result_has_exactly_one_arm:
  "snd (generate_post_image w topic style template_description hero_copy reference_images_dir) =
     Returned (p, e) \<Longrightarrow>
   (p \<noteq> None \<and> e = None) \<or> (p = None \<and> e \<noteq> None)"
  by (auto simp: generate_post_image_result split: if_splits option.splits sum.splits
           dest: try_block_one_arm)

theorem result_has_exactly_one_arm_witness:
  "snd (generate_post_image example_world (lit ''AI hiring'') (lit ''clean'') None None None) =
     Returned (Some (path_div (OUTPUT_DIR example_world) (image_file_name example_world (lit ''AI hiring''))), None) \<and>
   snd (generate_post_image keyless_world (lit ''AI hiring'') (lit ''clean'') None None None) =
     Returned (None, Some missing_key_message)"
proof -
  have a: "snd (generate_post_image example_world (lit ''AI hiring'') (lit ''clean'') None None None) =
     Returned (Some (path_div (OUTPUT_DIR example_world) (image_file_name example_world (lit ''AI hiring''))), None)"
    by (rule example_result)
  have b: "snd (generate_post_image keyless_world (lit ''AI hiring'') (lit ''clean'') None None None) =
     Returned (None, Some missing_key_message)"
    by (simp add: generate_post_image_result keyless_world_key)
  show ?thesis
    using a b result_has_exactly_one_arm [OF a] result_has_exactly_one_arm [OF b] by simp
qed

text \<open>
  Claim C9: two calls that differ only in \<open>style\<close> perform the same operations, among them
  the remote call with the same request and so the same prompt, and end the same way.
\<close>

theorem style_is_ignored:
  "generate_post_image w topic style1 template_description hero_copy reference_images_dir =
   generate_post_image w topic style2 template_description hero_copy reference_images_dir"
  by (simp add: generate_post_image_def)

section \<open>The output file\<close>

lemma str_nat_digits: "c \<in> set (str_nat n) \<Longrightarrow> 48 \<le> c \<and> c \<le> 57"
proof (induction n rule: str_nat.induct)
  case (1 n)
  show ?case
  proof (cases "n < 10")
    case True
    then show ?thesis using "1.prems" by (simp add: str_nat.simps [of n])
  next
    case False
    then have "c \<in> set (str_nat (n div 10)) \<or> c = 48 + n mod 10"
      using "1.prems" by (auto simp: str_nat.simps [of n])
    then show ?thesis
    proof
      assume "c \<in> set (str_nat (n div 10))"
      then show ?thesis using "1.IH" False by simp
    next
      assume "c = 48 + n mod 10"
      moreover have "n mod 10 < 10" by simp
      ultimately show ?thesis by linarith
    qed
  qed
qed

lemma str_int_chars: "c \<in> set (str_int i) \<Longrightarrow> c = 45 \<or> (48 \<le> c \<and> c \<le> 57)"
  by (auto simp: str_int_def dest: str_nat_digits split: if_splits)

lemma safe_name_chars:
  "c \<in> set (safe_name w topic) \<Longrightarrow> py_isalnum w c \<or> c = 32 \<or> c = 45 \<or> c = 95"
  by (auto simp: safe_name_def lit_def)

lemma safe_name_length: "length (safe_name w topic) = min 50 (length topic)"
  by (simp add: safe_name_def min.commute)

lemma safe_name_nth:
  "i < length (safe_name w topic) \<Longrightarrow>
   safe_name w topic ! i =
     (if py_isalnum w (topic ! i) \<or> topic ! i = 32 \<or> topic ! i = 45 \<or> topic ! i = 95
      then topic ! i else 95)"
  by (simp add: safe_name_def lit_def)

lemma not_alnum_47: "\<not> py_isalnum w 47"
  by (simp add: py_isalnum_def)

lemma image_file_name_no_separator: "47 \<notin> set (image_file_name w topic)"
proof
  assume "47 \<in> set (image_file_name w topic)"
  then consider "47 \<in> set (lit ''linkedin_image_'')" | "47 \<in> set (safe_name w topic)"
    | "47 \<in> set (lit ''_'')" | "47 \<in> set (str_int (unix_time w))" | "47 \<in> set (lit ''.png'')"
    by (auto simp: image_file_name_def)
  then show False
  proof cases
    case 1 then show ?thesis by (simp add: lit_def)
  next
    case 2 then show ?thesis using safe_name_chars [of 47 w topic] not_alnum_47 by simp
  next
    case 3 then show ?thesis by (simp add: lit_def)
  next
    case 4 then show ?thesis using str_int_chars [of 47 "unix_time w"] by simp
  next
    case 5 then show ?thesis by (simp add: lit_def)
  qed
qed

text \<open>
  Claim C6: a returned path is the output directory followed by one component,
  \<open>linkedin_image_\<close>, the sanitized topic, an underscore, the decimal Unix time and
  \<open>.png\<close>; that component holds no path separator (code point 47); the sanitized topic
  is the first 50 code points of the topic, each kept when it is alphanumeric, a space
  (32), a hyphen (45) or an underscore (95) and replaced by an underscore otherwise.
\<close>

theorem output_path_form:
  assumes r: "snd (generate_post_image w topic style td hc rd) = Returned (Some fpath, e)"
  shows "fpath = path_div (OUTPUT_DIR w)
             (lit ''linkedin_image_'' @ safe_name w topic @ lit ''_'' @ str_int (unix_time w) @ lit ''.png'') \<and>
   47 \<notin> set (lit ''linkedin_image_'' @ safe_name w topic @ lit ''_'' @ str_int (unix_time w) @ lit ''.png'') \<and>
   length (safe_name w topic) = min 50 (length topic) \<and>
   length (safe_name w topic) \<le> 50 \<and>
   (\<forall>c\<in>set (safe_name w topic). py_isalnum w c \<or> c = 32 \<or> c = 45 \<or> c = 95) \<and>
   (\<forall>i<length (safe_name w topic).
      safe_name w topic ! i =
        (if py_isalnum w (topic ! i) \<or> topic ! i = 32 \<or> topic ! i = 45 \<or> topic ! i = 95
         then topic ! i else 95))"
proof (intro conjI)
  show "fpath = path_div (OUTPUT_DIR w)
             (lit ''linkedin_image_'' @ safe_name w topic @ lit ''_'' @ str_int (unix_time w) @ lit ''.png'')"
    using returned_path [OF r] by (simp add: image_file_name_def)
  show "47 \<notin> set (lit ''linkedin_image_'' @ safe_name w topic @ lit ''_'' @ str_int (unix_time w) @ lit ''.png'')"
    using image_file_name_no_separator [of w topic] unfolding image_file_name_def .
  show "length (safe_name w topic) = min 50 (length topic)" by (rule safe_name_length)
  show "length (safe_name w topic) \<le> 50" by (simp add: safe_name_length)
  show "\<forall>c\<in>set (safe_name w topic). py_isalnum w c \<or> c = 32 \<or> c = 45 \<or> c = 95"
    using safe_name_chars by blast
  show "\<forall>i<length (safe_name w topic).
      safe_name w topic ! i =
        (if py_isalnum w (topic ! i) \<or> topic ! i = 32 \<or> topic ! i = 45 \<or> topic ! i = 95
         then topic ! i else 95)"
    using safe_name_nth by blast
qed

theorem output_path_form_witness:
  "snd (generate_post_image example_world (lit ''AI & Recruiting!!'') (lit ''clean'') None None None) =
     Returned (Some [lit ''/'', lit ''app'', lit ''output'',
                     lit ''linkedin_image_AI _ Recruiting___1700000000.png''], None) \<and>
   safe_name example_world (lit ''AI & Recruiting!!'') = lit ''AI _ Recruiting__'' \<and>
   length (safe_name example_world (lit ''AI & Recruiting!!'')) \<le> 50"
proof -
  have u: "unix_time example_world = 1700000000" "BASE_DIR example_world = [lit ''/'', lit ''app'']"
    by (simp_all add: example_world_def responding_world_def)
  have n: "image_file_name example_world (lit ''AI & Recruiting!!'') =
             lit ''linkedin_image_AI _ Recruiting___1700000000.png''"
    by (simp add: image_file_name_def example_safe_name str_int_example u) (simp add: lit_def)
  have r: "snd (generate_post_image example_world (lit ''AI & Recruiting!!'') (lit ''clean'') None None None) =
     Returned (Some [lit ''/'', lit ''app'', lit ''output'',
                     lit ''linkedin_image_AI _ Recruiting___1700000000.png''], None)"
    by (simp add: example_result n OUTPUT_DIR_def path_div_def u)
  show ?thesis
    using r output_path_form [OF r] example_safe_name by simp
qed

section \<open>Response decoding\<close>

lemma scan_parts_first:
  "\<forall>q\<in>set pre. try_part w q = Inr None \<Longrightarrow> try_part w p = Inr (Some bs) \<Longrightarrow>
   scan_parts w (pre @ p # post) = Inr (Some bs)"
  by (induction pre) simp_all

lemma scan_parts_none:
  "\<forall>q\<in>set ps. try_part w q = Inr None \<Longrightarrow> scan_parts w ps = Inr None"
  by (induction ps) simp_all

lemma response_parts_flat: "resp_parts r = Has v \<Longrightarrow> response_parts r = py_list v"
  by (simp add: response_parts_def)

lemma response_parts_nested:
  "resp_parts r = Missing \<Longrightarrow> resp_candidates r = Has (Some (cand # cands)) \<Longrightarrow>
   cand_content cand = Has (Some (Content (Has v))) \<Longrightarrow> response_parts r = py_list v"
  by (simp add: response_parts_def)

lemma try_part_accessor_first:
  "part_as_image p = Some (Inr img) \<Longrightarrow> png_encode w img = Inr bs \<Longrightarrow> try_part w p = Inr (Some bs)"
  by (simp add: try_part_def try_as_image_def)

lemma try_part_inline_bytes:
  "try_as_image w p = None \<Longrightarrow> part_inline_data p = Some b \<Longrightarrow>
   blob_data b = Some (PyBytes bs) \<Longrightarrow> bs \<noteq> [] \<Longrightarrow> try_part w p = Inr (Some bs)"
  by (simp add: try_part_def try_inline_data_def py_or_def truthy_def)

lemma no_part_yields:
  "reaches_decoding w topic td hc rd r \<Longrightarrow> response_parts r = Inr ps \<Longrightarrow>
   \<forall>q\<in>set ps. try_part w q = Inr None \<Longrightarrow>
   snd (generate_post_image w topic style td hc rd) = Returned (None, Some no_image_message)"
  by (simp add: reaches_decoding_result extract_image_bytes_def scan_parts_none)

lemma text_flat_parts: "response_parts text_flat_response = Inr [text_part]"
  by (simp add: response_parts_def text_flat_response_def py_list_def)

lemma garbled_parts: "response_parts garbled_response = Inr [garbled_part]"
  by (simp add: response_parts_def garbled_response_def py_list_def)

lemma try_part_garbled:
  "try_part (responding_world r) garbled_part = Inl (Exc (lit ''Incorrect padding''))"
  by (simp add: try_part_def try_as_image_def try_inline_data_def garbled_part_def py_or_def
        truthy_def responding_world_def) (simp add: lit_def)

text \<open>
  Claim C3, as the code has it. The parts that are scanned are the flat list when the
  response has a \<open>parts\<close> attribute, and the list under the first candidate's content
  only when it has none. For each part the accessor is tried first: when it and the
  re-encoding succeed the part yields those bytes, whatever its inline data is; otherwise
  a non-empty inline payload of bytes is taken. The scan stops at the first part that
  yields a payload, after parts that yield none. When every scanned part is passed over,
  the call returns \<open>(None, "No image in Gemini response")\<close>.
\<close>

theorem response_decoding_order:
  "(resp_parts r = Has (Some ps) \<longrightarrow> response_parts r = Inr ps) \<and>
   (resp_parts r = Missing \<and> resp_candidates r = Has (Some (cand # cands)) \<and>
      cand_content cand = Has (Some (Content (Has (Some ps)))) \<longrightarrow> response_parts r = Inr ps) \<and>
   (part_as_image p = Some (Inr img) \<and> png_encode w img = Inr bs \<longrightarrow> try_part w p = Inr (Some bs)) \<and>
   (try_as_image w p = None \<and> part_inline_data p = Some b \<and> blob_data b = Some (PyBytes bs) \<and>
      bs \<noteq> [] \<longrightarrow> try_part w p = Inr (Some bs)) \<and>
   ((\<forall>q\<in>set pre. try_part w q = Inr None) \<and> try_part w p = Inr (Some bs) \<longrightarrow>
      scan_parts w (pre @ p # post) = Inr (Some bs)) \<and>
   (reaches_decoding w topic td hc rd r \<and> response_parts r = Inr ps \<and>
      (\<forall>q\<in>set ps. try_part w q = Inr None) \<longrightarrow>
      snd (generate_post_image w topic style td hc rd) =
        Returned (None, Some (lit ''No image in Gemini response'')))"
proof (intro conjI impI)
  assume "resp_parts r = Has (Some ps)"
  then show "response_parts r = Inr ps" by (simp add: response_parts_flat py_list_def)
next
  assume "resp_parts r = Missing \<and> resp_candidates r = Has (Some (cand # cands)) \<and>
      cand_content cand = Has (Some (Content (Has (Some ps))))"
  then show "response_parts r = Inr ps"
    using response_parts_nested [of r cand cands "Some ps"] by (simp add: py_list_def)
next
  assume "part_as_image p = Some (Inr img) \<and> png_encode w img = Inr bs"
  then show "try_part w p = Inr (Some bs)" by (simp add: try_part_accessor_first)
next
  assume "try_as_image w p = None \<and> part_inline_data p = Some b \<and> blob_data b = Some (PyBytes bs) \<and> bs \<noteq> []"
  then show "try_part w p = Inr (Some bs)" by (simp add: try_part_inline_bytes)
next
  assume "(\<forall>q\<in>set pre. try_part w q = Inr None) \<and> try_part w p = Inr (Some bs)"
  then show "scan_parts w (pre @ p # post) = Inr (Some bs)" by (simp add: scan_parts_first)
next
  assume "reaches_decoding w topic td hc rd r \<and> response_parts r = Inr ps \<and>
      (\<forall>q\<in>set ps. try_part w q = Inr None)"
  then show "snd (generate_post_image w topic style td hc rd) =
        Returned (None, Some (lit ''No image in Gemini response''))"
    using no_part_yields [of w topic td hc rd r ps style] by (simp add: no_image_message_def)
qed

theorem response_decoding_order_witness:
  "response_parts flat_response = Inr [text_part, inline_part] \<and>
   response_parts nested_response = Inr [inline_part] \<and>
   try_part example_world accessor_part = Inr (Some png_bytes) \<and>
   try_part example_world inline_part = Inr (Some png_bytes) \<and>
   scan_parts example_world ([text_part] @ inline_part # [accessor_part]) = Inr (Some png_bytes) \<and>
   reaches_decoding (responding_world text_flat_response) (lit ''AI hiring'') None None None text_flat_response \<and>
   snd (generate_post_image (responding_world text_flat_response) (lit ''AI hiring'') (lit ''clean'') None None None) =
     Returned (None, Some (lit ''No image in Gemini response''))"
proof -
  let ?w = example_world
  have a: "resp_parts flat_response = Has (Some [text_part, inline_part])"
    by (simp add: flat_response_def)
  have b: "resp_parts nested_response = Missing \<and>
      resp_candidates nested_response = Has (Some (Candidate (Has (Some (Content (Has (Some [inline_part]))))) # [])) \<and>
      cand_content (Candidate (Has (Some (Content (Has (Some [inline_part])))))) = Has (Some (Content (Has (Some [inline_part]))))"
    by (simp add: nested_response_def nested_image_candidates_def)
  have c: "part_as_image accessor_part = Some (Inr (Image 7)) \<and> png_encode ?w (Image 7) = Inr png_bytes"
    by (simp add: accessor_part_def example_world_def responding_world_def)
  have d: "try_as_image ?w inline_part = None \<and>
      part_inline_data inline_part = Some \<lparr> blob_data = Some (PyBytes png_bytes), blob_image_bytes = None \<rparr> \<and>
      blob_data \<lparr> blob_data = Some (PyBytes png_bytes), blob_image_bytes = None \<rparr> = Some (PyBytes png_bytes) \<and>
      png_bytes \<noteq> []"
    by (simp add: try_as_image_def inline_part_def png_bytes_def)
  have e: "(\<forall>q\<in>set [text_part]. try_part ?w q = Inr None) \<and> try_part ?w inline_part = Inr (Some png_bytes)"
    by (simp add: try_part_text try_part_inline)
  have f: "reaches_decoding (responding_world text_flat_response) (lit ''AI hiring'') None None None text_flat_response \<and>
      response_parts text_flat_response = Inr [text_part] \<and>
      (\<forall>q\<in>set [text_part]. try_part (responding_world text_flat_response) q = Inr None)"
    by (simp add: responding_reaches_decoding text_flat_parts try_part_text)
  note t1 = response_decoding_order [where r = flat_response and ps = "[text_part, inline_part]"
     and cand = "Candidate Missing" and cands = "[]"
     and p = accessor_part and img = "Image 7" and w = ?w and bs = png_bytes
     and b = "\<lparr> blob_data = None, blob_image_bytes = None \<rparr>" and pre = "[]" and post = "[]"
     and topic = "[]" and td = None and hc = None and rd = None and style = "[]"]
  note t2 = response_decoding_order [where r = nested_response and ps = "[inline_part]"
     and cand = "Candidate (Has (Some (Content (Has (Some [inline_part])))))" and cands = "[]"
     and p = inline_part and img = "Image 7" and w = ?w and bs = png_bytes
     and b = "\<lparr> blob_data = Some (PyBytes png_bytes), blob_image_bytes = None \<rparr>"
     and pre = "[text_part]" and post = "[accessor_part]"
     and topic = "[]" and td = None and hc = None and rd = None and style = "[]"]
  note t3 = response_decoding_order [where r = text_flat_response and ps = "[text_part]"
     and cand = "Candidate Missing" and cands = "[]"
     and p = inline_part and img = "Image 7" and bs = png_bytes
     and b = "\<lparr> blob_data = None, blob_image_bytes = None \<rparr>" and pre = "[]" and post = "[]"
     and w = "responding_world text_flat_response" and topic = "lit ''AI hiring''"
     and td = None and hc = None and rd = None and style = "lit ''clean''"]
  have g1: "response_parts flat_response = Inr [text_part, inline_part]"
    using a t1 by blast
  have g2: "response_parts nested_response = Inr [inline_part]"
    using b t2 by blast
  have g3: "try_part example_world accessor_part = Inr (Some png_bytes)"
    using c t1 by blast
  have g4: "try_part example_world inline_part = Inr (Some png_bytes)"
    using d t2 by blast
  have g5: "scan_parts example_world ([text_part] @ inline_part # [accessor_part]) = Inr (Some png_bytes)"
    using e t2 by blast
  have g6: "snd (generate_post_image (responding_world text_flat_response) (lit ''AI hiring'') (lit ''clean'') None None None) =
     Returned (None, Some (lit ''No image in Gemini response''))"
    using f t3 by blast
  show ?thesis
    using g1 g2 g3 g4 g5 g6 f by blast
qed

text \<open>
  Claim C3 as stated fails twice. First, the flat list and the nested list are not
  searched one after the other: the response \<open>text_flat_response\<close> has a flat list with
  one part without an image and an image-bearing part under its first candidate; the
  sequence "flat parts, then nested parts" contains a part that yields bytes, and the
  call returns the no-image error. Second, a part that yields no bytes does not always
  lead to the no-image error: the only part of \<open>garbled_response\<close> carries text that
  \<open>b64decode\<close> rejects, and the call returns that exception's text.
\<close>

theorem response_decoding_counterexample:
  "spec_search_order text_flat_response = [text_part, inline_part] \<and>
   scan_parts (responding_world text_flat_response) (spec_search_order text_flat_response) =
     Inr (Some png_bytes) \<and>
   png_bytes \<noteq> [] \<and>
   snd (generate_post_image (responding_world text_flat_response) (lit ''AI hiring'') (lit ''clean'')
          None None None) =
     Returned (None, Some (lit ''No image in Gemini response'')) \<and>
   spec_search_order garbled_response = [garbled_part] \<and>
   try_part (responding_world garbled_response) garbled_part = Inl (Exc (lit ''Incorrect padding'')) \<and>
   snd (generate_post_image (responding_world garbled_response) (lit ''AI hiring'') (lit ''clean'')
          None None None) =
     Returned (None, Some (lit ''Incorrect padding'')) \<and>
   lit ''Incorrect padding'' \<noteq> lit ''No image in Gemini response''"
proof -
  have s: "spec_search_order text_flat_response = [text_part, inline_part]"
    by (simp add: spec_search_order_def flat_parts_def nested_parts_def text_flat_response_def
          nested_image_candidates_def)
  have n: "snd (generate_post_image (responding_world text_flat_response) (lit ''AI hiring'') (lit ''clean'') None None None) =
     Returned (None, Some no_image_message)"
    by (rule no_part_yields [OF responding_reaches_decoding text_flat_parts]) (simp add: try_part_text)
  have g: "spec_search_order garbled_response = [garbled_part]"
    by (simp add: spec_search_order_def flat_parts_def nested_parts_def garbled_response_def)
  have r: "snd (generate_post_image (responding_world garbled_response) (lit ''AI hiring'') (lit ''clean'') None None None) =
     Returned (None, Some (lit ''Incorrect padding''))"
    by (simp add: reaches_decoding_result [OF responding_reaches_decoding] extract_image_bytes_def
          garbled_parts try_part_garbled)
  have d: "lit ''Incorrect padding'' \<noteq> lit ''No image in Gemini response''"
    by (simp add: lit_def)
  show ?thesis
    using n r d by (simp add: s g try_part_text try_part_inline try_part_garbled no_image_message_def png_bytes_def)
qed

text \<open>
  Claim C10: when the response has a flat \<open>parts\<close> attribute, the bytes extracted do not
  depend on its candidates; and a response with an empty flat list ends the call with
  the no-image error, whatever is nested under its candidates.
\<close>

theorem flat_parts_hide_candidates:
  "(resp_parts r = Has v \<longrightarrow>
      extract_image_bytes w (r \<lparr> resp_candidates := cands \<rparr>) = extract_image_bytes w r) \<and>
   (reaches_decoding w topic td hc rd r \<and> resp_parts r = Has (Some []) \<longrightarrow>
      snd (generate_post_image w topic style td hc rd) =
        Returned (None, Some (lit ''No image in Gemini response'')))"
proof (intro conjI impI)
  assume "resp_parts r = Has v"
  then show "extract_image_bytes w (r \<lparr> resp_candidates := cands \<rparr>) = extract_image_bytes w r"
    by (simp add: extract_image_bytes_def response_parts_def)
next
  assume a: "reaches_decoding w topic td hc rd r \<and> resp_parts r = Has (Some [])"
  then have "response_parts r = Inr []" by (simp add: response_parts_def py_list_def)
  then show "snd (generate_post_image w topic style td hc rd) =
        Returned (None, Some (lit ''No image in Gemini response''))"
    using a no_part_yields [of w topic td hc rd r "[]" style] by (simp add: no_image_message_def)
qed

theorem flat_parts_hide_candidates_witness:
  "resp_parts empty_flat_response = Has (Some []) \<and>
   nested_parts empty_flat_response = [inline_part] \<and>
   try_part (responding_world empty_flat_response) inline_part = Inr (Some png_bytes) \<and>
   extract_image_bytes (responding_world empty_flat_response)
      (empty_flat_response \<lparr> resp_candidates := Missing \<rparr>) =
     extract_image_bytes (responding_world empty_flat_response) empty_flat_response \<and>
   reaches_decoding (responding_world empty_flat_response) (lit ''AI hiring'') None None None empty_flat_response \<and>
   snd (generate_post_image (responding_world empty_flat_response) (lit ''AI hiring'') (lit ''clean'') None None None) =
     Returned (None, Some (lit ''No image in Gemini response''))"
proof -
  have a: "resp_parts empty_flat_response = Has (Some [])"
    by (simp add: empty_flat_response_def)
  have n: "nested_parts empty_flat_response = [inline_part]"
    by (simp add: nested_parts_def empty_flat_response_def nested_image_candidates_def)
  have r: "reaches_decoding (responding_world empty_flat_response) (lit ''AI hiring'') None None None empty_flat_response"
    by (rule responding_reaches_decoding)
  show ?thesis
    using a n r try_part_inline [of "responding_world empty_flat_response"]
      flat_parts_hide_candidates [where r = empty_flat_response and v = "Some []"
        and w = "responding_world empty_flat_response" and cands = Missing
        and topic = "lit ''AI hiring''" and td = None and hc = None and rd = None
        and style = "lit ''clean''"]
    by blast
qed

section \<open>Reference images\<close>

lemma open_images_decoded:
  "snd (open_images d fs) = concat (map (\<lambda>f. case entry_image f of Inl e \<Rightarrow> [] | Inr img \<Rightarrow> [img]) fs)"
proof (induction fs)
  case Nil
  then show ?case by simp
next
  case (Cons f fs)
  then show ?case by (cases "open_images d fs"; cases "entry_image f") simp_all
qed

lemma open_images_length: "length (snd (open_images d fs)) \<le> length fs"
  by (induction fs) (auto split: prod.splits sum.splits)

lemma stat_keys_Inr:
  "snd (stat_keys d fs) = Inr ks \<Longrightarrow>
   map snd ks = fs \<and> (\<forall>k\<in>set ks. entry_mtime (snd k) = Inr (fst k))"
proof (induction fs arbitrary: ks)
  case Nil
  then show ?case by simp
next
  case (Cons f fs)
  then show ?case
    by (cases "entry_mtime f"; cases "stat_keys d fs"; cases "snd (stat_keys d fs)") auto
qed

lemma stat_keys_total:
  "\<forall>f\<in>set fs. \<exists>t. entry_mtime f = Inr t \<Longrightarrow> \<exists>ks. snd (stat_keys d fs) = Inr ks"
proof (induction fs)
  case Nil
  then show ?case by simp
next
  case (Cons f fs)
  then obtain t ks where "entry_mtime f = Inr t" "snd (stat_keys d fs) = Inr ks" by auto
  then show ?case by (cases "stat_keys d fs") auto
qed

lemma load_reference_images_result:
  "snd (load_reference_images w (Some d) n) =
     (case path_exists w d of
        Inl e \<Rightarrow> Inl e
      | Inr False \<Rightarrow> Inr []
      | Inr True \<Rightarrow>
          if \<not> pil_installed w then Inr []
          else (case iterdir w d of
                  Inl e \<Rightarrow> Inl e
                | Inr entries \<Rightarrow>
                    (case snd (stat_keys d (filter (supported_file w) entries)) of
                       Inl e \<Rightarrow> Inl e
                     | Inr ks \<Rightarrow> Inr (snd (open_images d (take n (sort_newest_first ks)))))))"
  by (simp add: load_reference_images_def split: sum.splits bool.splits prod.splits)

lemma load_reference_images_length:
  "snd (load_reference_images w (Some d) n) = Inr imgs \<Longrightarrow> length imgs \<le> n"
proof -
  assume a: "snd (load_reference_images w (Some d) n) = Inr imgs"
  have "\<And>ks. length (snd (open_images d (take n (sort_newest_first ks)))) \<le> n"
    using open_images_length [of d] le_trans by (metis length_take min.cobounded2)
  then show ?thesis
    using a by (auto simp: load_reference_images_result split: sum.splits bool.splits if_splits)
qed

lemma sort_newest_first_mset:
  "map snd ks = fs \<Longrightarrow> mset (sort_newest_first ks) = mset fs"
proof -
  assume a: "map snd ks = fs"
  have "mset (sort_newest_first ks) = image_mset snd (mset (rev (sort_key fst (rev ks))))"
    by (simp add: sort_newest_first_def)
  also have "\<dots> = image_mset snd (mset ks)" by simp
  also have "\<dots> = mset fs" using a by auto
  finally show ?thesis .
qed

lemma sort_newest_first_descending:
  assumes "\<forall>k\<in>set ks. entry_mtime (snd k) = Inr (fst k)"
  shows "sorted_wrt (\<lambda>f g. \<forall>t u. entry_mtime f = Inr t \<and> entry_mtime g = Inr u \<longrightarrow> u \<le> t)
           (sort_newest_first ks)"
proof -
  let ?l = "rev (sort_key fst (rev ks))"
  have "sorted (map fst (sort_key fst (rev ks)))" by simp
  then have "sorted_wrt (\<lambda>a b. fst a \<le> fst b) (sort_key fst (rev ks))"
    by (simp only: sorted_map)
  then have d: "sorted_wrt (\<lambda>a b. fst b \<le> fst a) ?l"
    by (simp only: sorted_wrt_rev)
  have s: "set ?l = set ks" by simp
  have "sorted_wrt (\<lambda>a b. \<forall>t u. entry_mtime (snd a) = Inr t \<and> entry_mtime (snd b) = Inr u \<longrightarrow> u \<le> t) ?l"
  proof (rule sorted_wrt_mono_rel [OF _ d])
    fix a b
    assume "a \<in> set ?l" "b \<in> set ?l" "fst b \<le> fst a"
    then show "\<forall>t u. entry_mtime (snd a) = Inr t \<and> entry_mtime (snd b) = Inr u \<longrightarrow> u \<le> t"
      using assms s by auto
  qed
  then show ?thesis
    by (simp add: sort_newest_first_def sorted_wrt_map)
qed

lemma load_reference_images_selection:
  assumes "path_exists w d = Inr True" "pil_installed w" "iterdir w d = Inr entries"
    and st: "\<forall>f\<in>set entries. supported_file w f \<longrightarrow> (\<exists>t. entry_mtime f = Inr t)"
  shows "\<exists>chosen rest.
           mset (chosen @ rest) = mset (filter (supported_file w) entries) \<and>
           length chosen = min n (length (filter (supported_file w) entries)) \<and>
           sorted_wrt (\<lambda>f g. \<forall>t u. entry_mtime f = Inr t \<and> entry_mtime g = Inr u \<longrightarrow> u \<le> t)
             (chosen @ rest) \<and>
           snd (load_reference_images w (Some d) n) =
             Inr (concat (map (\<lambda>f. case entry_image f of Inl e \<Rightarrow> [] | Inr img \<Rightarrow> [img]) chosen))"
proof -
  let ?fs = "filter (supported_file w) entries"
  have "\<forall>f\<in>set ?fs. \<exists>t. entry_mtime f = Inr t" using st by simp
  then obtain ks where ks: "snd (stat_keys d ?fs) = Inr ks"
    using stat_keys_total by blast
  note k = stat_keys_Inr [OF ks]
  let ?sorted = "sort_newest_first ks"
  have m: "mset ?sorted = mset ?fs" using k by (simp add: sort_newest_first_mset)
  have len: "length ?sorted = length ?fs" using m by (metis size_mset)
  have "mset (take n ?sorted @ drop n ?sorted) = mset ?fs" using m by simp
  moreover have "length (take n ?sorted) = min n (length ?fs)" using len by (simp add: min.commute)
  moreover have "sorted_wrt (\<lambda>f g. \<forall>t u. entry_mtime f = Inr t \<and> entry_mtime g = Inr u \<longrightarrow> u \<le> t)
             (take n ?sorted @ drop n ?sorted)"
    using k sort_newest_first_descending [of ks] by simp
  moreover have "snd (load_reference_images w (Some d) n) =
      Inr (concat (map (\<lambda>f. case entry_image f of Inl e \<Rightarrow> [] | Inr img \<Rightarrow> [img]) (take n ?sorted)))"
    using assms(1-3) ks by (simp add: load_reference_images_result open_images_decoded)
  ultimately show ?thesis by blast
qed

text \<open>
  Claim C5. Without a directory, with a missing directory and without PIL the loader
  returns the empty list. Whenever it returns, it returns at most \<open>max_count\<close> images
  (the pipeline passes 2). When the directory can be listed and every supported file can
  be \<open>stat\<close>ed, the supported files split into \<open>chosen\<close> and \<open>rest\<close>, in descending order
  of modification time throughout (so no file of \<open>rest\<close> is newer than a chosen one),
  \<open>chosen\<close> has \<open>max_count\<close> files or all of them, and the result is the images of the
  chosen files that decode, in that order: a file that fails to decode is left out and
  the others are still returned.
\<close>

theorem reference_images_newest_supported:
  "load_reference_images w None n = ([], Inr []) \<and>
   (path_exists w d = Inr False \<longrightarrow> snd (load_reference_images w (Some d) n) = Inr []) \<and>
   (path_exists w d = Inr True \<and> \<not> pil_installed w \<longrightarrow>
      snd (load_reference_images w (Some d) n) = Inr []) \<and>
   (snd (load_reference_images w (Some d) n) = Inr imgs \<longrightarrow> length imgs \<le> n) \<and>
   (path_exists w d = Inr True \<and> pil_installed w \<and> iterdir w d = Inr entries \<and>
    (\<forall>f\<in>set entries. supported_file w f \<longrightarrow> (\<exists>t. entry_mtime f = Inr t)) \<longrightarrow>
      (\<exists>chosen rest.
         mset (chosen @ rest) = mset (filter (supported_file w) entries) \<and>
         length chosen = min n (length (filter (supported_file w) entries)) \<and>
         sorted_wrt (\<lambda>f g. \<forall>t u. entry_mtime f = Inr t \<and> entry_mtime g = Inr u \<longrightarrow> u \<le> t)
           (chosen @ rest) \<and>
         snd (load_reference_images w (Some d) n) =
           Inr (concat (map (\<lambda>f. case entry_image f of Inl e \<Rightarrow> [] | Inr img \<Rightarrow> [img]) chosen))))"
proof (intro conjI impI)
  show "load_reference_images w None n = ([], Inr [])"
    by (simp add: load_reference_images_def)
next
  assume "path_exists w d = Inr False"
  then show "snd (load_reference_images w (Some d) n) = Inr []"
    by (simp add: load_reference_images_result)
next
  assume "path_exists w d = Inr True \<and> \<not> pil_installed w"
  then show "snd (load_reference_images w (Some d) n) = Inr []"
    by (simp add: load_reference_images_result)
next
  assume "snd (load_reference_images w (Some d) n) = Inr imgs"
  then show "length imgs \<le> n" by (rule load_reference_images_length)
next
  assume "path_exists w d = Inr True \<and> pil_installed w \<and> iterdir w d = Inr entries \<and>
    (\<forall>f\<in>set entries. supported_file w f \<longrightarrow> (\<exists>t. entry_mtime f = Inr t))"
  then show "\<exists>chosen rest.
         mset (chosen @ rest) = mset (filter (supported_file w) entries) \<and>
         length chosen = min n (length (filter (supported_file w) entries)) \<and>
         sorted_wrt (\<lambda>f g. \<forall>t u. entry_mtime f = Inr t \<and> entry_mtime g = Inr u \<longrightarrow> u \<le> t)
           (chosen @ rest) \<and>
         snd (load_reference_images w (Some d) n) =
           Inr (concat (map (\<lambda>f. case entry_image f of Inl e \<Rightarrow> [] | Inr img \<Rightarrow> [img]) chosen))"
    using load_reference_images_selection [of w d entries n] by blast
qed

theorem reference_images_newest_supported_witness:
  "path_exists missing_dir_world (IMAGES_DIR missing_dir_world) = Inr False \<and>
   snd (load_reference_images missing_dir_world (Some (IMAGES_DIR missing_dir_world)) 2) = Inr [] \<and>
   path_exists no_pil_world (IMAGES_DIR no_pil_world) = Inr True \<and> \<not> pil_installed no_pil_world \<and>
   snd (load_reference_images no_pil_world (Some (IMAGES_DIR no_pil_world)) 2) = Inr [] \<and>
   iterdir example_world (IMAGES_DIR example_world) = Inr example_dir \<and>
   snd (load_reference_images example_world (Some (IMAGES_DIR example_world)) 2) = Inr [Image 1] \<and>
   length [Image 1] \<le> (2::nat) \<and>
   (\<exists>chosen rest.
      mset (chosen @ rest) = mset (filter (supported_file example_world) example_dir) \<and>
      length chosen = min 2 (length (filter (supported_file example_world) example_dir)) \<and>
      sorted_wrt (\<lambda>f g. \<forall>t u. entry_mtime f = Inr t \<and> entry_mtime g = Inr u \<longrightarrow> u \<le> t)
        (chosen @ rest) \<and>
      snd (load_reference_images example_world (Some (IMAGES_DIR example_world)) 2) =
        Inr (concat (map (\<lambda>f. case entry_image f of Inl e \<Rightarrow> [] | Inr img \<Rightarrow> [img]) chosen)))"
proof -
  let ?m = missing_dir_world and ?p = no_pil_world and ?e = example_world
  have a: "path_exists ?m (IMAGES_DIR ?m) = Inr False"
    by (simp add: missing_dir_world_def)
  have b: "path_exists ?p (IMAGES_DIR ?p) = Inr True \<and> \<not> pil_installed ?p"
    by (simp add: no_pil_world_def example_world_def responding_world_def)
  have c: "path_exists ?e (IMAGES_DIR ?e) = Inr True \<and> pil_installed ?e \<and>
      iterdir ?e (IMAGES_DIR ?e) = Inr example_dir \<and>
      (\<forall>f\<in>set example_dir. supported_file ?e f \<longrightarrow> (\<exists>t. entry_mtime f = Inr t))"
    by (simp add: example_world_def responding_world_def) (simp add: example_dir_def)
  have l: "snd (load_reference_images ?e (Some (IMAGES_DIR ?e)) 2) = Inr [Image 1]"
    unfolding example_world_def by (rule responding_load)
  note t1 = reference_images_newest_supported [where w = ?m and d = "IMAGES_DIR ?m" and n = 2
      and imgs = "[]" and entries = "[]"]
  note t2 = reference_images_newest_supported [where w = ?p and d = "IMAGES_DIR ?p" and n = 2
      and imgs = "[]" and entries = "[]"]
  note t3 = reference_images_newest_supported [where w = ?e and d = "IMAGES_DIR ?e" and n = 2
      and imgs = "[Image 1]" and entries = example_dir]
  have g1: "snd (load_reference_images ?m (Some (IMAGES_DIR ?m)) 2) = Inr []"
    using a t1 by blast
  have g2: "snd (load_reference_images ?p (Some (IMAGES_DIR ?p)) 2) = Inr []"
    using b t2 by blast
  have g3: "length [Image 1] \<le> (2::nat)"
    using l t3 by blast
  have g4: "\<exists>chosen rest.
      mset (chosen @ rest) = mset (filter (supported_file ?e) example_dir) \<and>
      length chosen = min 2 (length (filter (supported_file ?e) example_dir)) \<and>
      sorted_wrt (\<lambda>f g. \<forall>t u. entry_mtime f = Inr t \<and> entry_mtime g = Inr u \<longrightarrow> u \<le> t)
        (chosen @ rest) \<and>
      snd (load_reference_images ?e (Some (IMAGES_DIR ?e)) 2) =
        Inr (concat (map (\<lambda>f. case entry_image f of Inl e \<Rightarrow> [] | Inr img \<Rightarrow> [img]) chosen))"
    using c t3 by blast
  show ?thesis
    using a b c l g1 g2 g3 g4 by blast
qed

end
